theory Spec2Isabelle
  imports Main "HOL-Library.Sublist"
begin

section \<open>Placement Calculator\<close>

text \<open>
  \<^verbatim>\<open>calculate_watermark_position(img_width, img_height, text_width, text_height, position)\<close>
  of \<^verbatim>\<open>watermark_tool.py\<close>. Python integers are unbounded, so the dimensions are
  \<^typ>\<open>int\<close>; Python's \<^verbatim>\<open>//\<close> is floor division, which is \<open>div\<close> on \<^typ>\<open>int\<close>.
  The anchor is the string the source compares against, and the local constant
  \<^verbatim>\<open>margin = 20\<close> is kept under its name.
\<close>

definition margin :: int where
  "margin = 20"

definition calculate_watermark_position ::
  "int \<Rightarrow> int \<Rightarrow> int \<Rightarrow> int \<Rightarrow> string \<Rightarrow> int \<times> int" where
  "calculate_watermark_position img_width img_height text_width text_height position =
     (if position = ''top-left'' then (margin, margin)
      else if position = ''top-right'' then (img_width - text_width - margin, margin)
      else if position = ''bottom-left'' then (margin, img_height - text_height - margin)
      else if position = ''bottom-right'' then
        (img_width - text_width - margin, img_height - text_height - margin)
      else if position = ''center'' then
        ((img_width - text_width) div 2, (img_height - text_height) div 2)
      else (margin, img_height - text_height - margin))"

section \<open>Strings and paths\<close>

text \<open>
  Python strings are modelled as \<^typ>\<open>string\<close>. \<^verbatim>\<open>str.lower\<close> is modelled on the ASCII
  letters; every other character is left as it is, which is all the extension test below
  can observe, since the five extensions are ASCII.
\<close>

definition lower_char :: "char \<Rightarrow> char" where
  "lower_char c =
     (case map_of (zip ''ABCDEFGHIJKLMNOPQRSTUVWXYZ'' ''abcdefghijklmnopqrstuvwxyz'') c of
        None \<Rightarrow> c
      | Some l \<Rightarrow> l)"

definition lower :: "string \<Rightarrow> string" where
  "lower s = map lower_char s"

text \<open>\<^verbatim>\<open>s.endswith(suf)\<close>, and \<^verbatim>\<open>s.endswith(tuple)\<close>, which holds when some member matches.\<close>

definition endswith :: "string \<Rightarrow> string \<Rightarrow> bool" where
  "endswith s suf = (length suf \<le> length s \<and> drop (length s - length suf) s = suf)"

definition endswith_any :: "string \<Rightarrow> string list \<Rightarrow> bool" where
  "endswith_any s sufs = list_ex (endswith s) sufs"

definition startswith :: "string \<Rightarrow> string \<Rightarrow> bool" where
  "startswith s pre = (take (length pre) s = pre)"

text \<open>
  \<^verbatim>\<open>os.path.join(a, b)\<close> and \<^verbatim>\<open>os.path.basename(p)\<close> as \<^verbatim>\<open>posixpath\<close> defines them (the
  program looks its fonts up under macOS paths): an absolute second component replaces
  the first, a separator is inserted unless the first component is empty or already ends
  with one, and the base name is what follows the last separator.
\<close>

definition path_join :: "string \<Rightarrow> string \<Rightarrow> string" where
  "path_join a b =
     (if startswith b ''/'' then b
      else if a = [] \<or> endswith a ''/'' then a @ b
      else a @ ''/'' @ b)"


section \<open>The environment\<close>

text \<open>
  The program calls Pillow, \<^verbatim>\<open>os\<close>, \<^verbatim>\<open>datetime\<close> and \<^verbatim>\<open>print\<close>. What those calls return
  is the environment of the model: each call that can raise returns \<open>exn + 'a\<close>, with
  \<open>Inl\<close> the exception. All exceptions of the model are subclasses of Python's
  \<^verbatim>\<open>Exception\<close>, so both \<^verbatim>\<open>except Exception\<close> and the bare \<^verbatim>\<open>except\<close> of the source catch
  them.
\<close>

datatype exn =
  OSError | AttributeError | TypeError | ValueError | OverflowError | UnicodeEncodeError

text \<open>
  The messages the program prints, by the \<^verbatim>\<open>print\<close> call they come from and the values
  formatted into them: the paths, file names and texts, and the exception of a handler.
\<close>

datatype message =
  Read_Directory_Failed exn
| Read_Exif_Failed string exn
| Using_Default_Font
| Process_Image_Failed string exn
| No_Images_Found
| Found_Images nat
| Make_Directory_Failed exn
| Processing string string
| Done
| Failed
| Summary nat nat
| Output_Directory string

text \<open>
  A \<^verbatim>\<open>datetime\<close> object. The constructor accepts exactly the fields in the ranges below
  and raises \<^verbatim>\<open>ValueError\<close> otherwise.
\<close>

record datetime =
  year :: nat
  month :: nat
  day :: nat
  hour :: nat
  minute :: nat
  second :: nat

definition is_leap :: "nat \<Rightarrow> bool" where
  "is_leap y = (y mod 4 = 0 \<and> (y mod 100 \<noteq> 0 \<or> y mod 400 = 0))"

definition days_in_month :: "nat \<Rightarrow> nat \<Rightarrow> nat" where
  "days_in_month y m =
     (if m = 2 then (if is_leap y then 29 else 28)
      else if m = 4 \<or> m = 6 \<or> m = 9 \<or> m = 11 then 30
      else 31)"

definition valid_datetime :: "datetime \<Rightarrow> bool" where
  "valid_datetime d =
     (1 \<le> year d \<and> year d \<le> 9999 \<and> 1 \<le> month d \<and> month d \<le> 12
      \<and> 1 \<le> day d \<and> day d \<le> days_in_month (year d) (month d)
      \<and> hour d \<le> 23 \<and> minute d \<le> 59 \<and> second d \<le> 59)"

definition datetime_new :: "nat \<Rightarrow> nat \<Rightarrow> nat \<Rightarrow> nat \<Rightarrow> nat \<Rightarrow> nat \<Rightarrow> exn + datetime" where
  "datetime_new Y m d H M S =
     (let date_obj = \<lparr>year = Y, month = m, day = d, hour = H, minute = M, second = S\<rparr>
      in if valid_datetime date_obj then Inr date_obj else Inl ValueError)"

text \<open>
  A value of an EXIF tag is a string (Pillow decodes ASCII-typed tags as Latin-1, one
  \<^typ>\<open>char\<close> per character) or something that is not a string (a number, a tuple, bytes).
\<close>

datatype exif_value = Str string | NonStr

text \<open>
  What the program reads of an opened image: its size, the result of \<^verbatim>\<open>img._getexif()\<close>
  (an exception, \<^verbatim>\<open>None\<close>, or the tag dictionary as its items in iteration order) and
  whether its pixel data can be decoded, which Pillow does when the image is first
  converted or drawn on.
\<close>

record image =
  width :: int
  height :: int
  getexif :: "exn + (nat \<times> exif_value) list option"
  load :: "exn + unit"

datatype font = TrueType string int | DefaultFont

text \<open>
  What \<^verbatim>\<open>add_watermark\<close> hands to \<^verbatim>\<open>img.save\<close>: the source image with the translucent
  rectangle and the text drawn on it.
\<close>

record rendered =
  source :: string
  rectangle :: "int \<times> int \<times> int \<times> int"
  text_xy :: "int \<times> int"
  text_drawn :: string
  text_font :: font
  fill :: "nat \<times> nat \<times> nat"

text \<open>
  The environment. Timestamps are floats in Python; the model does not look inside them,
  so their type is a parameter. \<open>print\<close> says for each message whether the terminal takes
  it: \<^verbatim>\<open>print\<close> raises when the stream is closed or cannot encode a character of the
  message. \<open>save\<close> says whether \<^verbatim>\<open>img.save\<close> can write a picture to a path.
\<close>

record 't world =
  Image_open :: "string \<Rightarrow> exn + image"
  TAGS :: "nat \<rightharpoonup> string"
  getmtime :: "string \<Rightarrow> exn + 't"
  fromtimestamp :: "'t \<Rightarrow> exn + datetime"
  now :: datetime
  listdir :: "string \<Rightarrow> exn + string list"
  makedirs :: "string \<Rightarrow> exn + unit"
  path_exists :: "string \<Rightarrow> bool"
  truetype :: "string \<Rightarrow> int \<Rightarrow> exn + font"
  load_default :: "exn + font"
  textbbox :: "font \<Rightarrow> string \<Rightarrow> exn + (int \<times> int \<times> int \<times> int)"
  save :: "string \<Rightarrow> rendered \<Rightarrow> exn + unit"
  print :: "message \<Rightarrow> exn + unit"

text \<open>
  Every \<^verbatim>\<open>datetime\<close> object satisfies the constructor's ranges, also those the library
  builds itself.
\<close>

definition wf_world :: "'t world \<Rightarrow> bool" where
  "wf_world w =
     (valid_datetime (now w) \<and> (\<forall>t d. fromtimestamp w t = Inr d \<longrightarrow> valid_datetime d))"

section \<open>File selection\<close>

definition supported_formats :: "string list" where
  "supported_formats = [''.jpg'', ''.jpeg'', ''.png'', ''.tiff'', ''.bmp'']"

text \<open>
  The body of the \<^verbatim>\<open>for filename in os.listdir(directory)\<close> loop of \<^verbatim>\<open>get_image_files\<close>,
  with the list \<^verbatim>\<open>image_files\<close> it appends to as an accumulator.
\<close>

fun get_image_files_loop :: "string \<Rightarrow> string list \<Rightarrow> string list \<Rightarrow> string list" where
  "get_image_files_loop directory [] image_files = image_files"
| "get_image_files_loop directory (filename # rest) image_files =
     get_image_files_loop directory rest
       (if endswith_any (lower filename) supported_formats
        then image_files @ [path_join directory filename]
        else image_files)"

text \<open>
  \<^verbatim>\<open>get_image_files\<close>: when \<^verbatim>\<open>os.listdir\<close> raises, the \<^verbatim>\<open>except\<close> clause prints a message and
  returns the empty list; an exception of that \<^verbatim>\<open>print\<close> leaves the function.
\<close>

definition get_image_files :: "'t world \<Rightarrow> string \<Rightarrow> exn + string list" where
  "get_image_files w directory =
     (case listdir w directory of
        Inl e \<Rightarrow>
          (case print w (Read_Directory_Failed e) of
             Inl e' \<Rightarrow> Inl e'
           | Inr u \<Rightarrow> Inr [])
      | Inr names \<Rightarrow> Inr (get_image_files_loop directory names []))"

section \<open>Parsing and formatting dates\<close>

text \<open>
  \<^verbatim>\<open>datetime.strptime(value, "%Y:%m:%d %H:%M:%S")\<close>. CPython turns the format into a
  regular expression, one group per directive and \<^verbatim>\<open>\s+\<close> for the blank, matches it at the
  start of the string, and raises \<^verbatim>\<open>ValueError\<close> when nothing matches or when the match
  found leaves text over. A matcher returns its matches in the order a backtracking
  engine tries them, each with the text matched and the text left.
\<close>

type_synonym matcher = "string \<Rightarrow> (string \<times> string) list"

definition one_of :: "string \<Rightarrow> matcher" where
  "one_of cs s = (case s of [] \<Rightarrow> [] | c # r \<Rightarrow> if c \<in> set cs then [([c], r)] else [])"

definition then_re :: "matcher \<Rightarrow> matcher \<Rightarrow> matcher" where
  "then_re a b s = [(x @ y, r'). (x, r) \<leftarrow> a s, (y, r') \<leftarrow> b r]"

definition or_re :: "matcher \<Rightarrow> matcher \<Rightarrow> matcher" where
  "or_re a b s = a s @ b s"

text \<open>\<^verbatim>\<open>\d\<close> and \<^verbatim>\<open>[1-9]\<close>; among the characters of Latin-1 only the ASCII digits are digits.\<close>

definition is_digit :: "char \<Rightarrow> bool" where
  "is_digit c = (c \<in> set ''0123456789'')"

definition digit :: matcher where
  "digit = one_of ''0123456789''"

definition nonzero :: matcher where
  "nonzero = one_of ''123456789''"

text \<open>\<^verbatim>\<open>\s\<close> on the characters of Latin-1, and the greedy \<^verbatim>\<open>\s+\<close>, longest match first.\<close>

definition is_space :: "char \<Rightarrow> bool" where
  "is_space c =
     (c \<in> set [CHR 0x09, CHR 0x0A, CHR 0x0B, CHR 0x0C, CHR 0x0D, CHR 0x1C, CHR 0x1D, CHR 0x1E,
                CHR 0x1F, CHR 0x20, CHR 0x85, CHR 0xA0])"

fun spaces :: matcher where
  "spaces [] = []"
| "spaces (c # r) =
     (if is_space c then [(c # x, r'). (x, r') \<leftarrow> spaces r] @ [([c], r)] else [])"

text \<open>
  The groups of \<^verbatim>\<open>%Y\<close>, \<^verbatim>\<open>%m\<close>, \<^verbatim>\<open>%d\<close>, \<^verbatim>\<open>%H\<close>, \<^verbatim>\<open>%M\<close> and \<^verbatim>\<open>%S\<close>:
  \<^verbatim>\<open>\d\d\d\d\<close>, \<^verbatim>\<open>1[0-2]|0[1-9]|[1-9]\<close>, \<^verbatim>\<open>3[0-1]|[1-2]\d|0[1-9]|[1-9]| [1-9]\<close>,
  \<^verbatim>\<open>2[0-3]|[0-1]\d|\d\<close>, \<^verbatim>\<open>[0-5]\d|\d\<close> and \<^verbatim>\<open>6[0-1]|[0-5]\d|\d\<close>.
\<close>

definition re_Y :: matcher where
  "re_Y = then_re digit (then_re digit (then_re digit digit))"

definition re_m :: matcher where
  "re_m = or_re (then_re (one_of ''1'') (one_of ''012''))
           (or_re (then_re (one_of ''0'') nonzero) nonzero)"

definition re_d :: matcher where
  "re_d = or_re (then_re (one_of ''3'') (one_of ''01''))
           (or_re (then_re (one_of ''12'') digit)
             (or_re (then_re (one_of ''0'') nonzero)
               (or_re nonzero (then_re (one_of '' '') nonzero))))"

definition re_H :: matcher where
  "re_H = or_re (then_re (one_of ''2'') (one_of ''0123''))
           (or_re (then_re (one_of ''01'') digit) digit)"

definition re_M :: matcher where
  "re_M = or_re (then_re (one_of ''012345'') digit) digit"

definition re_S :: matcher where
  "re_S = or_re (then_re (one_of ''6'') (one_of ''01''))
           (or_re (then_re (one_of ''012345'') digit) digit)"

text \<open>The whole expression: the six groups with the text left, in backtracking order.\<close>

definition strptime_regex ::
  "string \<Rightarrow> ((string \<times> string \<times> string \<times> string \<times> string \<times> string) \<times> string) list" where
  "strptime_regex s =
     [((Y, m, d, H, M, S), r11).
        (Y, r1) \<leftarrow> re_Y s, (c1, r2) \<leftarrow> one_of '':'' r1,
        (m, r3) \<leftarrow> re_m r2, (c2, r4) \<leftarrow> one_of '':'' r3,
        (d, r5) \<leftarrow> re_d r4, (sp, r6) \<leftarrow> spaces r5,
        (H, r7) \<leftarrow> re_H r6, (c3, r8) \<leftarrow> one_of '':'' r7,
        (M, r9) \<leftarrow> re_M r8, (c4, r10) \<leftarrow> one_of '':'' r9,
        (S, r11) \<leftarrow> re_S r10]"

text \<open>\<^verbatim>\<open>int(group)\<close> on a group's text: decimal digits, a leading blank skipped.\<close>

definition digit_val :: "char \<Rightarrow> nat" where
  "digit_val c =
     (case map_of (zip ''0123456789'' [0, 1, 2, 3, 4, 5, 6, 7, 8, 9]) c of
        None \<Rightarrow> 0
      | Some n \<Rightarrow> n)"

definition int_of :: "string \<Rightarrow> nat" where
  "int_of s = foldl (\<lambda>n c. 10 * n + digit_val c) 0 (filter is_digit s)"

definition strptime :: "exif_value \<Rightarrow> exn + datetime" where
  "strptime v =
     (case v of
        NonStr \<Rightarrow> Inl TypeError
      | Str data_string \<Rightarrow>
          (case strptime_regex data_string of
             [] \<Rightarrow> Inl ValueError
           | ((Y, m, d, H, M, S), rest) # others \<Rightarrow>
               if rest \<noteq> [] then Inl ValueError
               else datetime_new (int_of Y) (int_of m) (int_of d) (int_of H) (int_of M) (int_of S)))"

text \<open>
  \<^verbatim>\<open>date_obj.strftime("%Y-%m-%d")\<close> as the C library under CPython formats it on Linux:
  \<^verbatim>\<open>%Y\<close> is the year in decimal without padding, so a year below 1000 has fewer than four
  digits; \<^verbatim>\<open>%m\<close> and \<^verbatim>\<open>%d\<close> are zero-padded to two digits.
\<close>

definition digit_char :: "nat \<Rightarrow> char" where
  "digit_char n = ''0123456789'' ! n"

fun str_nat :: "nat \<Rightarrow> string" where
  "str_nat n = (if n < 10 then [digit_char n] else str_nat (n div 10) @ [digit_char (n mod 10)])"

declare str_nat.simps [simp del]

definition zfill :: "nat \<Rightarrow> string \<Rightarrow> string" where
  "zfill k s = replicate (k - length s) (CHR ''0'') @ s"

definition strftime :: "datetime \<Rightarrow> string" where
  "strftime d =
     str_nat (year d) @ ''-'' @ zfill 2 (str_nat (month d)) @ ''-'' @ zfill 2 (str_nat (day d))"

section \<open>Date Resolver\<close>

text \<open>
  \<^verbatim>\<open>ExifTags.TAGS.get(tag, tag)\<close>: the tag's name when the table has one, the tag itself
  otherwise.
\<close>

definition TAGS_get :: "(nat \<rightharpoonup> string) \<Rightarrow> nat \<Rightarrow> string + nat" where
  "TAGS_get tags tag = (case tags tag of Some name \<Rightarrow> Inl name | None \<Rightarrow> Inr tag)"

text \<open>
  The \<^verbatim>\<open>for tag, value in exif_data.items()\<close> loop of \<^verbatim>\<open>get_exif_date\<close>: \<open>Inr (Some s)\<close> is
  \<^verbatim>\<open>return s\<close>, \<open>Inr None\<close> is the loop running to its end, \<open>Inl e\<close> an exception raised
  inside it.
\<close>

fun exif_loop :: "(nat \<rightharpoonup> string) \<Rightarrow> (nat \<times> exif_value) list \<Rightarrow> exn + string option" where
  "exif_loop tags [] = Inr None"
| "exif_loop tags ((tag, v) # rest) =
     (if TAGS_get tags tag = Inl ''DateTime'' then
        (case strptime v of
           Inl e \<Rightarrow> Inl e
         | Inr date_obj \<Rightarrow> Inr (Some (strftime date_obj)))
      else exif_loop tags rest)"

text \<open>The body of the first \<^verbatim>\<open>try\<close> of \<^verbatim>\<open>get_exif_date\<close>.\<close>

definition exif_try :: "'t world \<Rightarrow> string \<Rightarrow> exn + string option" where
  "exif_try w image_path =
     (case Image_open w image_path of
        Inl e \<Rightarrow> Inl e
      | Inr img \<Rightarrow>
          (case getexif img of
             Inl e \<Rightarrow> Inl e
           | Inr None \<Rightarrow> Inr None
           | Inr (Some exif_data) \<Rightarrow>
               if exif_data = [] then Inr None else exif_loop (TAGS w) exif_data))"

text \<open>The body of the second \<^verbatim>\<open>try\<close>.\<close>

definition mtime_try :: "'t world \<Rightarrow> string \<Rightarrow> exn + string" where
  "mtime_try w image_path =
     (case getmtime w image_path of
        Inl e \<Rightarrow> Inl e
      | Inr mtime \<Rightarrow>
          (case fromtimestamp w mtime of
             Inl e \<Rightarrow> Inl e
           | Inr date_obj \<Rightarrow> Inr (strftime date_obj)))"

text \<open>
  The second \<^verbatim>\<open>try\<close> with its bare \<^verbatim>\<open>except\<close>, which returns the current date and prints
  nothing.
\<close>

definition mtime_or_now :: "'t world \<Rightarrow> string \<Rightarrow> exn + string" where
  "mtime_or_now w image_path =
     (case mtime_try w image_path of
        Inr s \<Rightarrow> Inr s
      | Inl e \<Rightarrow> Inr (strftime (now w)))"

text \<open>
  \<^verbatim>\<open>get_exif_date\<close>: the first \<^verbatim>\<open>try\<close> returns or falls through; after an exception its
  handler prints a message first, and an exception of that \<^verbatim>\<open>print\<close> leaves the function.
\<close>

definition get_exif_date :: "'t world \<Rightarrow> string \<Rightarrow> exn + string" where
  "get_exif_date w image_path =
     (case exif_try w image_path of
        Inr (Some s) \<Rightarrow> Inr s
      | Inr None \<Rightarrow> mtime_or_now w image_path
      | Inl e \<Rightarrow>
          (case print w (Read_Exif_Failed image_path e) of
             Inl e' \<Rightarrow> Inl e'
           | Inr u \<Rightarrow> mtime_or_now w image_path))"

section \<open>Drawing the watermark\<close>










section \<open>Processing a directory\<close>






section \<open>The notions of the specification\<close>

text \<open>A string in the form \<^verbatim>\<open>YYYY-MM-DD\<close>: four digits, a dash, two digits, a dash, two digits.\<close>

definition is_iso_date :: "string \<Rightarrow> bool" where
  "is_iso_date s =
     (length s = 10
      \<and> list_all is_digit (take 4 s) \<and> s ! 4 = CHR ''-''
      \<and> list_all is_digit (take 2 (drop 5 s)) \<and> s ! 7 = CHR ''-''
      \<and> list_all is_digit (drop 8 s))"

text \<open>
  A date with a year of \<open>k\<close> digits: \<open>k\<close> digits, a dash, two digits, a dash, two digits;
  and a date whose year has one to four digits, as the years 1 to 9999 have in decimal.
\<close>

definition date_form :: "nat \<Rightarrow> string \<Rightarrow> bool" where
  "date_form k s =
     (length s = k + 6
      \<and> list_all is_digit (take k s) \<and> s ! k = CHR ''-''
      \<and> list_all is_digit (take 2 (drop (k + 1) s)) \<and> s ! (k + 3) = CHR ''-''
      \<and> list_all is_digit (drop (k + 4) s))"

definition is_date_string :: "string \<Rightarrow> bool" where
  "is_date_string s = list_ex (\<lambda>k. date_form k s) [1, 2, 3, 4]"

text \<open>
  The specification describes the resolver as three attempts, each with an optional
  result, of which the first result wins. The embedded metadata is the value of the first
  item of the image's EXIF data whose tag is named \<^verbatim>\<open>DateTime\<close>, when the image can be
  opened and has such data; the attempt on it succeeds when the value parses.
\<close>

definition embedded_datetime :: "'t world \<Rightarrow> string \<Rightarrow> exif_value option" where
  "embedded_datetime w image_path =
     (case Image_open w image_path of
        Inl e \<Rightarrow> None
      | Inr img \<Rightarrow>
          (case getexif img of
             Inr (Some exif_data) \<Rightarrow>
               map_option snd (find (\<lambda>(tag, v). TAGS w tag = Some ''DateTime'') exif_data)
           | _ \<Rightarrow> None))"

definition from_metadata :: "'t world \<Rightarrow> string \<Rightarrow> string option" where
  "from_metadata w image_path =
     (case embedded_datetime w image_path of
        None \<Rightarrow> None
      | Some v \<Rightarrow> (case strptime v of Inl e \<Rightarrow> None | Inr d \<Rightarrow> Some (strftime d)))"

definition from_mtime :: "'t world \<Rightarrow> string \<Rightarrow> string option" where
  "from_mtime w image_path =
     (case getmtime w image_path of
        Inl e \<Rightarrow> None
      | Inr t \<Rightarrow> (case fromtimestamp w t of Inl e \<Rightarrow> None | Inr d \<Rightarrow> Some (strftime d)))"

definition from_clock :: "'t world \<Rightarrow> string option" where
  "from_clock w = Some (strftime (now w))"

fun first_success :: "'a option list \<Rightarrow> 'a option" where
  "first_success [] = None"
| "first_success (Some x # rest) = Some x"
| "first_success (None # rest) = first_success rest"

text \<open>
  The terminal takes the message of the resolver's handler whenever the first \<^verbatim>\<open>try\<close>
  raises for this path; and the terminal takes every message.
\<close>

definition handler_prints :: "'t world \<Rightarrow> string \<Rightarrow> bool" where
  "handler_prints w image_path =
     (\<forall>e. exif_try w image_path = Inl e \<longrightarrow> print w (Read_Exif_Failed image_path e) = Inr ())"

definition terminal_ok :: "'t world \<Rightarrow> bool" where
  "terminal_ok w = (\<forall>m. print w m = Inr ())"

text \<open>
  A file name is selected when its lower-cased form ends with one of the five
  extensions.
\<close>

definition selected :: "string \<Rightarrow> bool" where
  "selected filename =
     (\<exists>ext \<in> set [''.jpg'', ''.jpeg'', ''.png'', ''.tiff'', ''.bmp'']. suffix ext (lower filename))"




section \<open>Example environments\<close>

text \<open>
  An excerpt of Pillow's table \<^verbatim>\<open>ExifTags.TAGS\<close>, and a directory \<^verbatim>\<open>photos\<close> with five
  entries: a photo with a \<^verbatim>\<open>DateTime\<close> tag, a text file, a file that cannot be opened or
  examined, an image without EXIF data, and a photo that only has a
  \<^verbatim>\<open>DateTimeOriginal\<close> tag. No font file of the program's list exists, and the terminal
  takes every message.
\<close>

definition PIL_TAGS :: "nat \<rightharpoonup> string" where
  "PIL_TAGS =
     [271 \<mapsto> ''Make'', 306 \<mapsto> ''DateTime'', 36867 \<mapsto> ''DateTimeOriginal'',
      36868 \<mapsto> ''DateTimeDigitized'']"

definition photo :: "(nat \<times> exif_value) list option \<Rightarrow> image" where
  "photo exif_data = \<lparr>width = 1000, height = 800, getexif = Inr exif_data, load = Inr ()\<rparr>"

definition example :: "nat world" where
  "example =
     \<lparr>Image_open = (\<lambda>p.
        if p = ''photos/a.jpg'' then
          Inr (photo (Some [(271, Str ''Canon''), (306, Str ''2023:05:17 10:00:00'')]))
        else if p = ''photos/B.PNG'' then Inr (photo None)
        else if p = ''photos/c.jpeg'' then
          Inr (photo (Some [(36867, Str ''2021:03:04 05:06:07'')]))
        else Inl OSError),
      TAGS = PIL_TAGS,
      getmtime = (\<lambda>p. if p = ''photos/B.PNG'' \<or> p = ''photos/c.jpeg'' then Inr 7 else Inl OSError),
      fromtimestamp = (\<lambda>t.
        Inr \<lparr>year = 2020, month = 1, day = 2, hour = 3, minute = 4, second = 5\<rparr>),
      now = \<lparr>year = 2026, month = 11, day = 4, hour = 0, minute = 0, second = 0\<rparr>,
      listdir = (\<lambda>d.
        if d = ''photos'' then
          Inr [''a.jpg'', ''notes.txt'', ''bad.bmp'', ''B.PNG'', ''c.jpeg'']
        else Inl OSError),
      makedirs = (\<lambda>d. Inr ()),
      path_exists = (\<lambda>p. False),
      truetype = (\<lambda>p n. Inl OSError),
      load_default = Inr DefaultFont,
      textbbox = (\<lambda>f t. Inr (0, 2, 120, 32)),
      save = (\<lambda>p r. Inr ()),
      print = (\<lambda>m. Inr ())\<rparr>"


text \<open>
  The same directory where the first photo's \<^verbatim>\<open>DateTime\<close> is a date of the year 5, and
  where the files' modification time is a date of the year 512.
\<close>

definition early_photo :: "nat world" where
  "early_photo =
     example\<lparr>Image_open := (\<lambda>p.
       if p = ''photos/a.jpg'' then Inr (photo (Some [(306, Str ''0005:01:01 00:00:00'')]))
       else Inl OSError)\<rparr>"

definition early_mtime :: "nat world" where
  "early_mtime =
     example\<lparr>fromtimestamp := (\<lambda>t.
       Inr \<lparr>year = 512, month = 4, day = 26, hour = 3, minute = 4, second = 5\<rparr>)\<rparr>"

text \<open>
  The same directory on a terminal that cannot encode the name of \<^verbatim>\<open>bad.bmp\<close>: \<^verbatim>\<open>print\<close>
  raises for every message with that path or name in it.
\<close>

definition names_bad_bmp :: "message \<Rightarrow> bool" where
  "names_bad_bmp m =
     (case m of
        Read_Exif_Failed p e \<Rightarrow> p = ''photos/bad.bmp''
      | Process_Image_Failed p e \<Rightarrow> p = ''photos/bad.bmp''
      | Processing f t \<Rightarrow> f = ''bad.bmp''
      | _ \<Rightarrow> False)"

definition narrow_terminal :: "nat world" where
  "narrow_terminal =
     example\<lparr>print := (\<lambda>m. if names_bad_bmp m then Inl UnicodeEncodeError else Inr ())\<rparr>"

section \<open>Evaluating the definitions\<close>

lemmas parse_defs =
  strptime_def strptime_regex_def re_Y_def re_m_def re_d_def re_H_def re_M_def re_S_def
  then_re_def or_re_def one_of_def digit_def nonzero_def is_space_def int_of_def digit_val_def
  is_digit_def datetime_new_def valid_datetime_def days_in_month_def is_leap_def

lemmas format_defs = strftime_def zfill_def str_nat.simps digit_char_def


lemmas example_defs = example_def photo_def PIL_TAGS_def TAGS_get_def

lemma strptime_example:
  "strptime (Str ''2023:05:17 10:00:00'') =
   Inr \<lparr>year = 2023, month = 5, day = 17, hour = 10, minute = 0, second = 0\<rparr>"
  by (simp add: parse_defs)

lemma strftime_example:
  "strftime \<lparr>year = 2023, month = 5, day = 17, hour = 10, minute = 0, second = 0\<rparr> =
   ''2023-05-17''"
  by (simp add: format_defs)

lemma strftime_example_mtime:
  "strftime \<lparr>year = 2020, month = 1, day = 2, hour = 3, minute = 4, second = 5\<rparr> =
   ''2020-01-02''"
  by (simp add: format_defs)

lemma strftime_example_now:
  "strftime \<lparr>year = 2026, month = 11, day = 4, hour = 0, minute = 0, second = 0\<rparr> =
   ''2026-11-04''"
  by (simp add: format_defs)

lemmas example_dates =
  strptime_example strftime_example strftime_example_mtime strftime_example_now

section \<open>Strings, paths and the decimal digits\<close>

lemma endswith_iff_suffix: "endswith s suf \<longleftrightarrow> suffix suf s"
proof
  assume "endswith s suf"
  then have "s = take (length s - length suf) s @ suf"
    by (metis append_take_drop_id endswith_def)
  then show "suffix suf s" by (metis suffixI)
next
  assume "suffix suf s"
  then obtain zs where "s = zs @ suf" by (auto simp: suffix_def)
  then show "endswith s suf" by (simp add: endswith_def)
qed

lemma endswith_any_selected: "endswith_any (lower f) supported_formats \<longleftrightarrow> selected f"
  by (simp add: endswith_any_def supported_formats_def selected_def endswith_iff_suffix)

lemma get_image_files_loop_eq:
  "get_image_files_loop directory names acc =
   acc @ map (path_join directory) (filter selected names)"
  by (induction names arbitrary: acc) (simp_all add: endswith_any_selected)





lemma digit_char_digit: "n < 10 \<Longrightarrow> is_digit (digit_char n)"
proof -
  assume "n < 10"
  then have "n < length ''0123456789''" by simp
  then show ?thesis unfolding digit_char_def is_digit_def by (rule nth_mem)
qed

lemma str_nat_small: "n < 10 \<Longrightarrow> str_nat n = [digit_char n]"
  by (subst str_nat.simps) simp

lemma str_nat_large: "\<not> n < 10 \<Longrightarrow> str_nat n = str_nat (n div 10) @ [digit_char (n mod 10)]"
  by (subst str_nat.simps) simp

lemma str_nat_digits: "list_all is_digit (str_nat n)"
proof (induction n rule: str_nat.induct)
  case (1 n)
  show ?case
  proof (cases "n < 10")
    case True
    then show ?thesis by (simp add: str_nat_small digit_char_digit)
  next
    case False
    with 1 show ?thesis by (simp add: str_nat_large digit_char_digit)
  qed
qed

lemma str_nat_length: "0 < k \<Longrightarrow> n < 10 ^ k \<Longrightarrow> length (str_nat n) \<le> k"
proof (induction n arbitrary: k rule: str_nat.induct)
  case (1 n)
  show ?case
  proof (cases "n < 10")
    case True
    with 1(2) show ?thesis by (simp add: str_nat_small)
  next
    case False
    have k: "1 < k"
    proof (rule ccontr)
      assume "\<not> 1 < k"
      with 1(2) have "k = 1" by simp
      with 1(3) False show False by simp
    qed
    then obtain j where j: "k = Suc j" "0 < j" by (cases k) auto
    with 1(3) have "n < 10 ^ j * 10" by simp
    then have "n div 10 < 10 ^ j" by (rule less_mult_imp_div_less)
    with 1(1) [OF False j(2)] have "length (str_nat (n div 10)) \<le> j" by simp
    with False j show ?thesis by (simp add: str_nat_large)
  qed
qed

lemma zfill_length: "length s \<le> k \<Longrightarrow> length (zfill k s) = k"
  by (simp add: zfill_def)

lemma zfill_digits:
  assumes "list_all is_digit s"
  shows "list_all is_digit (zfill k s)"
proof -
  have "is_digit (CHR ''0'')" by (simp add: is_digit_def)
  then have "list_all is_digit (replicate (k - length s) (CHR ''0''))"
    by (induction "k - length s" arbitrary: k) (simp_all add: list_all_iff)
  with assms show ?thesis by (simp add: zfill_def)
qed

lemma iso_shape:
  assumes "length Y = 4" "length M = 2" "length D = 2"
    and "list_all is_digit Y" "list_all is_digit M" "list_all is_digit D"
  shows "is_iso_date (Y @ ''-'' @ M @ ''-'' @ D)"
  using assms by (simp add: is_iso_date_def nth_append)

lemma str_nat_length_ge: "10 ^ k \<le> n \<Longrightarrow> k < length (str_nat n)"
proof (induction n arbitrary: k rule: str_nat.induct)
  case (1 n)
  show ?case
  proof (cases "n < 10")
    case True
    have "k = 0"
    proof (rule ccontr)
      assume "k \<noteq> 0"
      then obtain j where "k = Suc j" by (cases k) auto
      then have kj: "k = Suc j" .
      have "(1::nat) \<le> 10 ^ j" by simp
      then have "(10::nat) \<le> 10 * 10 ^ j" by linarith
      also from 1(2) kj have "10 * 10 ^ j \<le> n" by simp
      finally have "10 \<le> n" .
      with True show False by simp
    qed
    with True show ?thesis by (simp add: str_nat_small)
  next
    case False
    show ?thesis
    proof (cases k)
      case 0
      with False show ?thesis by (simp add: str_nat_large)
    next
      case (Suc j)
      with 1(2) have "10 ^ j * 10 \<le> n" by simp
      then have "10 ^ j \<le> n div 10" by (simp add: less_eq_div_iff_mult_less_eq)
      with 1(1) [OF False] have "j < length (str_nat (n div 10))" by simp
      with False Suc show ?thesis by (simp add: str_nat_large)
    qed
  qed
qed

lemma str_nat_four_long:
  assumes "1000 \<le> n" and "n \<le> 9999"
  shows "length (str_nat n) = 4"
proof -
  from assms(2) have "n < 10 ^ 4" by simp
  then have "length (str_nat n) \<le> 4" by (rule str_nat_length [rotated]) simp
  moreover from assms(1) have "10 ^ 3 \<le> n" by simp
  then have "3 < length (str_nat n)" by (rule str_nat_length_ge)
  ultimately show ?thesis by simp
qed

lemma is_iso_date_strftime:
  assumes "valid_datetime d" and "1000 \<le> year d"
  shows "is_iso_date (strftime d)"
proof -
  from assms have y: "year d \<le> 9999" and m: "month d < 10 ^ 2" and dd: "day d < 10 ^ 2"
    by (auto simp: valid_datetime_def days_in_month_def split: if_splits)
  have "is_iso_date (str_nat (year d) @ ''-'' @ zfill 2 (str_nat (month d)) @ ''-'' @
          zfill 2 (str_nat (day d)))"
  proof (rule iso_shape)
    show "length (str_nat (year d)) = 4"
      by (rule str_nat_four_long [OF assms(2) y])
    show "length (zfill 2 (str_nat (month d))) = 2"
      by (rule zfill_length, rule str_nat_length [OF _ m]) simp
    show "length (zfill 2 (str_nat (day d))) = 2"
      by (rule zfill_length, rule str_nat_length [OF _ dd]) simp
    show "list_all is_digit (str_nat (year d))" by (rule str_nat_digits)
  qed (rule zfill_digits, rule str_nat_digits)+
  then show ?thesis by (simp only: strftime_def)
qed

section \<open>The resolver as a chain of attempts\<close>

lemma valid_strptime: "strptime v = Inr d \<Longrightarrow> valid_datetime d"
  by (auto simp: strptime_def datetime_new_def Let_def
           split: exif_value.splits list.splits if_splits prod.splits)

lemma exif_loop_find:
  "exif_loop tags items =
     (case find (\<lambda>(t, v). tags t = Some ''DateTime'') items of
        None \<Rightarrow> Inr None
      | Some (t, v) \<Rightarrow>
          (case strptime v of Inl e \<Rightarrow> Inl e | Inr d \<Rightarrow> Inr (Some (strftime d))))"
  by (induction tags items rule: exif_loop.induct)
     (auto simp: TAGS_get_def split: option.splits)

lemma exif_try_from_metadata:
  "(case exif_try w p of Inr (Some s) \<Rightarrow> Some s | _ \<Rightarrow> None) = from_metadata w p"
  by (auto simp: exif_try_def from_metadata_def embedded_datetime_def exif_loop_find
           split: sum.splits option.splits prod.splits)

lemma mtime_try_from_mtime:
  "(case mtime_try w p of Inr s \<Rightarrow> Some s | Inl e \<Rightarrow> None) = from_mtime w p"
  by (auto simp: mtime_try_def from_mtime_def split: sum.splits)

lemma get_exif_date_chain:
  assumes "handler_prints w p"
  shows "get_exif_date w p =
     Inr (case from_metadata w p of
            Some s \<Rightarrow> s
          | None \<Rightarrow> (case from_mtime w p of Some s \<Rightarrow> s | None \<Rightarrow> strftime (now w)))"
proof -
  have fall: "mtime_or_now w p =
      Inr (case from_mtime w p of Some s \<Rightarrow> s | None \<Rightarrow> strftime (now w))"
    unfolding mtime_try_from_mtime [symmetric]
    by (simp add: mtime_or_now_def split: sum.splits)
  show ?thesis
  proof (cases "exif_try w p")
    case (Inl e)
    with assms have "print w (Read_Exif_Failed p e) = Inr ()" by (simp add: handler_prints_def)
    moreover from Inl have "from_metadata w p = None"
      unfolding exif_try_from_metadata [symmetric] by simp
    ultimately show ?thesis using Inl by (simp add: get_exif_date_def fall)
  next
    case (Inr r)
    then show ?thesis
      unfolding exif_try_from_metadata [symmetric]
      by (cases r) (simp_all add: get_exif_date_def fall)
  qed
qed


lemma terminal_ok_handler: "terminal_ok w \<Longrightarrow> handler_prints w p"
  by (simp add: terminal_ok_def handler_prints_def)

section \<open>Values in the pattern of EXIF dates\<close>


lemma one_of_miss: "c \<notin> set cs \<Longrightarrow> one_of cs (c # r) = []"
  by (simp add: one_of_def)
































section \<open>Properties of the Placement Calculator\<close>

text \<open>
  C3. With the margin fixed at 20, the calculator returns \<open>(20, 20)\<close> for top-left,
  \<open>(W - w - 20, 20)\<close> for top-right, \<open>(20, H - h - 20)\<close> for bottom-left,
  \<open>(W - w - 20, H - h - 20)\<close> for bottom-right and the floor-divided
  \<open>((W - w) div 2, (H - h) div 2)\<close> for center, for all integer dimensions (so in
  particular for all non-negative ones); and the placement of a 120 by 30 text on a
  1000 by 800 canvas at bottom-right is \<open>(860, 750)\<close>.
\<close>

theorem placement_formulas:
  "margin = 20
   \<and> calculate_watermark_position W H w h ''top-left'' = (20, 20)
   \<and> calculate_watermark_position W H w h ''top-right'' = (W - w - 20, 20)
   \<and> calculate_watermark_position W H w h ''bottom-left'' = (20, H - h - 20)
   \<and> calculate_watermark_position W H w h ''bottom-right'' = (W - w - 20, H - h - 20)
   \<and> calculate_watermark_position W H w h ''center'' = ((W - w) div 2, (H - h) div 2)
   \<and> calculate_watermark_position 1000 800 120 30 ''bottom-right'' = (860, 750)"
  by (simp add: calculate_watermark_position_def margin_def)

text \<open>
  C4. An anchor string that is none of the five recognised names is placed exactly
  where bottom-left is placed, for the same dimensions.
\<close>

theorem unrecognized_anchor_is_bottom_left:
  assumes "position \<notin> {''top-left'', ''top-right'', ''bottom-left'', ''bottom-right'', ''center''}"
  shows "calculate_watermark_position W H w h position =
         calculate_watermark_position W H w h ''bottom-left''"
  using assms by (simp add: calculate_watermark_position_def)

theorem unrecognized_anchor_is_bottom_left_witness:
  "''middle'' \<notin> {''top-left'', ''top-right'', ''bottom-left'', ''bottom-right'', ''center''}
   \<and> calculate_watermark_position 1000 800 120 30 ''middle'' = (20, 750)
   \<and> calculate_watermark_position 1000 800 120 30 ''bottom-left'' = (20, 750)"
  using unrecognized_anchor_is_bottom_left [of "''middle''" 1000 800 120 30]
  by (simp add: calculate_watermark_position_def margin_def)

text \<open>
  C5. Nothing is clamped. There are non-negative dimensions with \<open>w + 2 * margin > W\<close>
  at which the x-coordinate of a right-hand anchor is the unmodified, negative
  \<open>W - w - margin\<close>, and non-negative dimensions with \<open>h + 2 * margin > H\<close> at which the
  y-coordinate of a bottom anchor is the unmodified, negative \<open>H - h - margin\<close>.
\<close>

theorem no_bounds_clamping:
  "(\<exists>W H w h. 0 \<le> W \<and> 0 \<le> H \<and> 0 \<le> w \<and> 0 \<le> h \<and> w + 2 * margin > W
      \<and> fst (calculate_watermark_position W H w h ''top-right'') = W - w - margin
      \<and> fst (calculate_watermark_position W H w h ''bottom-right'') = W - w - margin
      \<and> W - w - margin < 0)
   \<and> (\<exists>W H w h. 0 \<le> W \<and> 0 \<le> H \<and> 0 \<le> w \<and> 0 \<le> h \<and> h + 2 * margin > H
      \<and> snd (calculate_watermark_position W H w h ''bottom-left'') = H - h - margin
      \<and> snd (calculate_watermark_position W H w h ''bottom-right'') = H - h - margin
      \<and> H - h - margin < 0)"
proof (intro conjI)
  show "\<exists>W H w h. 0 \<le> W \<and> 0 \<le> H \<and> 0 \<le> w \<and> 0 \<le> h \<and> w + 2 * margin > W
      \<and> fst (calculate_watermark_position W H w h ''top-right'') = W - w - margin
      \<and> fst (calculate_watermark_position W H w h ''bottom-right'') = W - w - margin
      \<and> W - w - margin < 0"
    by (rule exI [of _ 100], rule exI [of _ 100], rule exI [of _ 90], rule exI [of _ 10])
       (simp add: calculate_watermark_position_def margin_def)
  show "\<exists>W H w h. 0 \<le> W \<and> 0 \<le> H \<and> 0 \<le> w \<and> 0 \<le> h \<and> h + 2 * margin > H
      \<and> snd (calculate_watermark_position W H w h ''bottom-left'') = H - h - margin
      \<and> snd (calculate_watermark_position W H w h ''bottom-right'') = H - h - margin
      \<and> H - h - margin < 0"
    by (rule exI [of _ 100], rule exI [of _ 30], rule exI [of _ 10], rule exI [of _ 25])
       (simp add: calculate_watermark_position_def margin_def)
qed

section \<open>The example environments, evaluated\<close>

lemma example_terminal: "terminal_ok example"
  by (simp add: terminal_ok_def example_def)

lemma example_metadata:
  "embedded_datetime example ''photos/a.jpg'' = Some (Str ''2023:05:17 10:00:00'')"
  "embedded_datetime example ''photos/B.PNG'' = None"
  "embedded_datetime example ''photos/bad.bmp'' = None"
  "embedded_datetime example ''photos/c.jpeg'' = None"
  by (simp_all add: embedded_datetime_def example_defs)

lemma example_attempts:
  "from_metadata example ''photos/a.jpg'' = Some ''2023-05-17''"
  "from_metadata example ''photos/B.PNG'' = None"
  "from_metadata example ''photos/bad.bmp'' = None"
  "from_metadata example ''photos/c.jpeg'' = None"
  by (simp_all add: from_metadata_def example_metadata example_dates)

lemma example_mtimes:
  "from_mtime example ''photos/B.PNG'' = Some ''2020-01-02''"
  "from_mtime example ''photos/c.jpeg'' = Some ''2020-01-02''"
  "from_mtime example ''photos/bad.bmp'' = None"
  "strftime (now example) = ''2026-11-04''"
  using strftime_example_mtime strftime_example_now
  by (simp_all add: from_mtime_def example_def)

lemma example_results:
  "get_exif_date example ''photos/a.jpg'' = Inr ''2023-05-17''"
  "get_exif_date example ''photos/B.PNG'' = Inr ''2020-01-02''"
  "get_exif_date example ''photos/bad.bmp'' = Inr ''2026-11-04''"
  "get_exif_date example ''photos/c.jpeg'' = Inr ''2020-01-02''"
  by (simp_all add: get_exif_date_chain [OF terminal_ok_handler [OF example_terminal]]
        example_attempts example_mtimes)

lemma wf_example: "wf_world example"
  by (simp add: wf_world_def example_def valid_datetime_def days_in_month_def)

section \<open>The form of the resolver's dates\<close>

lemma date_shape:
  assumes "length Y = k" "length M = 2" "length D = 2"
    and "list_all is_digit Y" "list_all is_digit M" "list_all is_digit D"
  shows "date_form k (Y @ ''-'' @ M @ ''-'' @ D)"
  using assms by (simp add: date_form_def nth_append)

lemma date_form_iso: "date_form 4 s = is_iso_date s"
  by (simp add: date_form_def is_iso_date_def)

lemma strftime_form:
  assumes "valid_datetime d"
  shows "date_form (length (str_nat (year d))) (strftime d)"
proof -
  from assms have m: "month d < 10 ^ 2" and dd: "day d < 10 ^ 2"
    by (auto simp: valid_datetime_def days_in_month_def split: if_splits)
  have "date_form (length (str_nat (year d)))
          (str_nat (year d) @ ''-'' @ zfill 2 (str_nat (month d)) @ ''-'' @
           zfill 2 (str_nat (day d)))"
  proof (rule date_shape)
    show "length (zfill 2 (str_nat (month d))) = 2"
      by (rule zfill_length, rule str_nat_length [OF _ m]) simp
    show "length (zfill 2 (str_nat (day d))) = 2"
      by (rule zfill_length, rule str_nat_length [OF _ dd]) simp
    show "list_all is_digit (str_nat (year d))" by (rule str_nat_digits)
  qed (simp, (rule zfill_digits, rule str_nat_digits)+)
  then show ?thesis by (simp only: strftime_def)
qed

lemma year_digits:
  assumes "valid_datetime d"
  shows "length (str_nat (year d)) \<in> {1, 2, 3, 4}"
proof -
  from assms have "10 ^ 0 \<le> year d" and "year d < 10 ^ 4"
    by (simp_all add: valid_datetime_def)
  then have "0 < length (str_nat (year d))" and "length (str_nat (year d)) \<le> 4"
    using str_nat_length_ge [of 0 "year d"] str_nat_length [of 4 "year d"] by simp_all
  then have "length (str_nat (year d)) = 1 \<or> length (str_nat (year d)) = 2
      \<or> length (str_nat (year d)) = 3 \<or> length (str_nat (year d)) = 4"
    by arith
  then show ?thesis by simp
qed

lemma is_date_string_strftime:
  assumes "valid_datetime d"
  shows "is_date_string (strftime d)"
  using strftime_form [OF assms] year_digits [OF assms]
  by (auto simp: is_date_string_def list_ex_iff)

lemma strftime_length:
  assumes "valid_datetime d"
  shows "length (strftime d) = length (str_nat (year d)) + 6"
  using strftime_form [OF assms] by (simp add: date_form_def)

lemma is_iso_date_strftime_iff:
  assumes "valid_datetime d"
  shows "is_iso_date (strftime d) \<longleftrightarrow> 1000 \<le> year d"
proof
  assume "is_iso_date (strftime d)"
  then have "length (strftime d) = 10" by (simp add: is_iso_date_def)
  with strftime_length [OF assms] have four: "length (str_nat (year d)) = 4" by simp
  show "1000 \<le> year d"
  proof (rule ccontr)
    assume "\<not> 1000 \<le> year d"
    then have "year d < 10 ^ 3" by simp
    then have "length (str_nat (year d)) \<le> 3" by (rule str_nat_length [rotated]) simp
    with four show False by simp
  qed
next
  assume "1000 \<le> year d"
  with assms show "is_iso_date (strftime d)" by (rule is_iso_date_strftime)
qed

lemma exif_try_embedded:
  assumes "embedded_datetime w p = Some v"
  shows "exif_try w p =
     (case strptime v of Inl e \<Rightarrow> Inl e | Inr d \<Rightarrow> Inr (Some (strftime d)))"
  using assms
  by (auto simp: embedded_datetime_def exif_try_def exif_loop_find
           split: sum.splits option.splits prod.splits)

lemma get_exif_date_embedded:
  assumes "embedded_datetime w p = Some v" and "strptime v = Inr d"
  shows "get_exif_date w p = Inr (strftime d)"
  using exif_try_embedded [OF assms(1)] assms(2) by (simp add: get_exif_date_def)

lemma resolver_result_valid:
  assumes "wf_world w" and "handler_prints w p"
  shows "\<exists>d. valid_datetime d \<and> get_exif_date w p = Inr (strftime d)"
proof (cases "from_metadata w p")
  case (Some s)
  then obtain v d where "strptime v = Inr d" "s = strftime d"
    by (auto simp: from_metadata_def split: option.splits sum.splits)
  with Some show ?thesis
    using valid_strptime get_exif_date_chain [OF assms(2)] by fastforce
next
  case None
  show ?thesis
  proof (cases "from_mtime w p")
    case (Some s)
    then obtain t d where "fromtimestamp w t = Inr d" "s = strftime d"
      by (auto simp: from_mtime_def split: sum.splits)
    with assms(1) have "valid_datetime d" "s = strftime d" by (auto simp: wf_world_def)
    with None Some show ?thesis using get_exif_date_chain [OF assms(2)] by fastforce
  next
    case no_mtime: None
    from assms(1) have "valid_datetime (now w)" by (simp add: wf_world_def)
    with None no_mtime show ?thesis using get_exif_date_chain [OF assms(2)] by fastforce
  qed
qed

lemma early_photo_result: "get_exif_date early_photo ''photos/a.jpg'' = Inr ''5-01-01''"
proof -
  have e: "embedded_datetime early_photo ''photos/a.jpg'' = Some (Str ''0005:01:01 00:00:00'')"
    by (simp add: embedded_datetime_def early_photo_def example_defs)
  have p: "strptime (Str ''0005:01:01 00:00:00'') =
      Inr \<lparr>year = 5, month = 1, day = 1, hour = 0, minute = 0, second = 0\<rparr>"
    by (simp add: parse_defs)
  have f: "strftime \<lparr>year = 5, month = 1, day = 1, hour = 0, minute = 0, second = 0\<rparr> =
      ''5-01-01''"
    by (simp add: format_defs)
  from get_exif_date_embedded [OF e p] f show ?thesis by simp
qed

lemma early_mtime_facts:
  "embedded_datetime early_mtime ''photos/B.PNG'' = None"
  "exif_try early_mtime ''photos/B.PNG'' = Inr None"
  "getmtime early_mtime ''photos/B.PNG'' = Inr 7"
  "fromtimestamp early_mtime 7 =
     Inr \<lparr>year = 512, month = 4, day = 26, hour = 3, minute = 4, second = 5\<rparr>"
  by (simp_all add: embedded_datetime_def exif_try_def early_mtime_def example_defs)

lemma early_mtime_result: "get_exif_date early_mtime ''photos/B.PNG'' = Inr ''512-04-26''"
proof -
  have f: "strftime \<lparr>year = 512, month = 4, day = 26, hour = 3, minute = 4, second = 5\<rparr> =
      ''512-04-26''"
    by (simp add: format_defs)
  show ?thesis
    by (simp add: get_exif_date_def mtime_or_now_def mtime_try_def early_mtime_facts f)
qed

lemma narrow_terminal_result:
  "get_exif_date narrow_terminal ''photos/bad.bmp'' = Inl UnicodeEncodeError"
proof -
  have t: "exif_try narrow_terminal ''photos/bad.bmp'' = Inl OSError"
    by (simp add: exif_try_def narrow_terminal_def example_def)
  have p: "print narrow_terminal (Read_Exif_Failed ''photos/bad.bmp'' OSError) =
      Inl UnicodeEncodeError"
    by (simp add: narrow_terminal_def names_bad_bmp_def)
  show ?thesis by (simp add: get_exif_date_def t p)
qed

lemma wf_variants: "wf_world early_photo" "wf_world narrow_terminal"
  by (simp_all add: wf_world_def early_photo_def narrow_terminal_def example_def
        valid_datetime_def days_in_month_def)

section \<open>Properties of the Date Resolver\<close>



text \<open>
  C2, as the code has it. For every path, also one that cannot be opened or does not
  exist: when the terminal takes the message that the handler of the metadata step
  prints after an exception, the resolver raises no exception and returns the date of a
  \<^verbatim>\<open>datetime\<close> object as \<^verbatim>\<open>strftime\<close> prints it, the year in one to four digits without
  padding, a dash, the month in two digits, a dash, the day in two digits. That is the
  form \<^verbatim>\<open>YYYY-MM-DD\<close> exactly when the year is 1000 or later. The \<^verbatim>\<open>datetime\<close> objects of
  the library are taken to have their fields in the constructor's ranges.
\<close>

theorem resolver_returns_a_date:
  assumes "wf_world w" and "handler_prints w p"
  shows "\<exists>s d. get_exif_date w p = Inr s \<and> valid_datetime d \<and> s = strftime d
           \<and> is_date_string s \<and> (is_iso_date s \<longleftrightarrow> 1000 \<le> year d)"
proof -
  from resolver_result_valid [OF assms] obtain d where
    d: "valid_datetime d" "get_exif_date w p = Inr (strftime d)"
    by blast
  with is_date_string_strftime [OF d(1)] is_iso_date_strftime_iff [OF d(1)]
  show ?thesis by blast
qed

theorem resolver_returns_a_date_witness:
  "wf_world example
   \<and> handler_prints example ''photos/missing.jpg''
   \<and> Image_open example ''photos/missing.jpg'' = Inl OSError
   \<and> getmtime example ''photos/missing.jpg'' = Inl OSError
   \<and> get_exif_date example ''photos/missing.jpg'' = Inr ''2026-11-04''
   \<and> is_date_string ''2026-11-04'' \<and> is_iso_date ''2026-11-04''"
proof -
  note h = terminal_ok_handler [OF example_terminal, of "''photos/missing.jpg''"]
  have g: "get_exif_date example ''photos/missing.jpg'' = Inr ''2026-11-04''"
    by (simp add: get_exif_date_def mtime_or_now_def exif_try_def mtime_try_def example_def
          example_dates)
  have o: "Image_open example ''photos/missing.jpg'' = Inl OSError"
    "getmtime example ''photos/missing.jpg'' = Inl OSError"
    by (simp_all add: example_def)
  have i: "is_iso_date ''2026-11-04''" by (simp add: is_iso_date_def is_digit_def)
  from resolver_returns_a_date [OF wf_example h] g
  have "is_date_string ''2026-11-04''" by auto
  with g o i h show ?thesis by (simp add: wf_example)
qed

text \<open>
  C2 as it is stated fails twice. A photo whose \<^verbatim>\<open>DateTime\<close> is
  \<^verbatim>\<open>0005:01:01 00:00:00\<close> gets the date \<^verbatim>\<open>5-01-01\<close>, which is not in the form \<^verbatim>\<open>YYYY-MM-DD\<close>.
  And for a file that cannot be opened, on a terminal that cannot encode its name, the
  \<^verbatim>\<open>print\<close> of the handler raises and the resolver raises with it.
\<close>

theorem resolver_never_fails_counterexample:
  "wf_world early_photo
   \<and> get_exif_date early_photo ''photos/a.jpg'' = Inr ''5-01-01''
   \<and> \<not> is_iso_date ''5-01-01''
   \<and> wf_world narrow_terminal
   \<and> get_exif_date narrow_terminal ''photos/bad.bmp'' = Inl UnicodeEncodeError"
  by (simp add: wf_variants early_photo_result narrow_terminal_result is_iso_date_def)

text \<open>
  C6, as the code has it. When the embedded metadata value is \<^verbatim>\<open>2023:05:17 10:00:00\<close> the
  resolver returns \<^verbatim>\<open>2023-05-17\<close>. When there is no metadata (and the message of the
  handler, where the metadata step raised, is taken by the terminal) and the
  modification time is known, it returns the local date of that time as
  \<^verbatim>\<open>fromtimestamp\<close> gives it and \<^verbatim>\<open>strftime\<close> prints it: the year without padding, the month
  and the day in two digits, which is the form \<^verbatim>\<open>YYYY-MM-DD\<close> exactly when the year is 1000
  or later.
\<close>

theorem resolver_concrete_cases:
  "(embedded_datetime w p = Some (Str ''2023:05:17 10:00:00'') \<longrightarrow>
      get_exif_date w p = Inr ''2023-05-17'')
   \<and> (embedded_datetime w p = None \<and> handler_prints w p
        \<and> getmtime w p = Inr t \<and> fromtimestamp w t = Inr d \<longrightarrow>
      get_exif_date w p = Inr (strftime d)
      \<and> (valid_datetime d \<longrightarrow>
           is_date_string (strftime d) \<and> (is_iso_date (strftime d) \<longleftrightarrow> 1000 \<le> year d)))"
proof (intro conjI impI)
  assume "embedded_datetime w p = Some (Str ''2023:05:17 10:00:00'')"
  from get_exif_date_embedded [OF this strptime_example]
  show "get_exif_date w p = Inr ''2023-05-17''" by (simp add: strftime_example)
next
  assume a: "embedded_datetime w p = None \<and> handler_prints w p
        \<and> getmtime w p = Inr t \<and> fromtimestamp w t = Inr d"
  then show "get_exif_date w p = Inr (strftime d)"
    by (simp add: get_exif_date_chain from_metadata_def from_mtime_def)
  assume v: "valid_datetime d"
  show "is_date_string (strftime d)" by (rule is_date_string_strftime [OF v])
  show "is_iso_date (strftime d) \<longleftrightarrow> 1000 \<le> year d" by (rule is_iso_date_strftime_iff [OF v])
qed

theorem resolver_concrete_cases_witness:
  "embedded_datetime example ''photos/a.jpg'' = Some (Str ''2023:05:17 10:00:00'')
   \<and> get_exif_date example ''photos/a.jpg'' = Inr ''2023-05-17''
   \<and> embedded_datetime example ''photos/B.PNG'' = None
   \<and> handler_prints example ''photos/B.PNG''
   \<and> getmtime example ''photos/B.PNG'' = Inr 7
   \<and> fromtimestamp example 7 =
       Inr \<lparr>year = 2020, month = 1, day = 2, hour = 3, minute = 4, second = 5\<rparr>
   \<and> get_exif_date example ''photos/B.PNG'' = Inr ''2020-01-02''
   \<and> is_iso_date ''2020-01-02''"
proof -
  let ?d = "\<lparr>year = 2020, month = 1, day = 2, hour = 3, minute = 4, second = 5\<rparr>"
  note h = terminal_ok_handler [OF example_terminal, of "''photos/B.PNG''"]
  have m: "getmtime example ''photos/B.PNG'' = Inr 7" "fromtimestamp example 7 = Inr ?d"
    by (simp_all add: example_def)
  have v: "valid_datetime ?d"
    by (simp add: valid_datetime_def days_in_month_def)
  have y: "1000 \<le> year ?d" by simp
  from resolver_concrete_cases [of example "''photos/B.PNG''" 7 ?d] m v h y
  have "is_iso_date (strftime ?d)"
    by (simp only: example_metadata simp_thms)
  then have "is_iso_date ''2020-01-02''" by (simp only: strftime_example_mtime)
  with m h show ?thesis by (simp only: example_metadata example_results simp_thms)
qed

text \<open>
  C6 as it is stated fails where the modification time lies before the year 1000: a file
  without metadata whose modification time is a day of the year 512 gets \<^verbatim>\<open>512-04-26\<close>,
  which is not in the form \<^verbatim>\<open>YYYY-MM-DD\<close>.
\<close>

theorem resolver_concrete_cases_counterexample:
  "embedded_datetime early_mtime ''photos/B.PNG'' = None
   \<and> getmtime early_mtime ''photos/B.PNG'' = Inr 7
   \<and> fromtimestamp early_mtime 7 =
       Inr \<lparr>year = 512, month = 4, day = 26, hour = 3, minute = 4, second = 5\<rparr>
   \<and> get_exif_date early_mtime ''photos/B.PNG'' = Inr ''512-04-26''
   \<and> \<not> is_iso_date ''512-04-26''"
  by (simp add: early_mtime_facts early_mtime_result is_iso_date_def)

text \<open>
  C9. The metadata step reads only the tag named \<^verbatim>\<open>DateTime\<close>: its outcome is decided by
  the first item with that name, and the items with any other name, \<^verbatim>\<open>DateTimeOriginal\<close>
  among them, can be removed without changing it. When EXIF data is present without a
  \<^verbatim>\<open>DateTime\<close> tag, the resolver does not raise and returns what the modification-time
  fallback (and after it the clock) gives.
\<close>

theorem only_the_DateTime_tag_is_read:
  assumes "Image_open w p = Inr img" and "getexif img = Inr (Some exif_data)"
  shows "exif_try w p =
           (case find (\<lambda>(tag, v). TAGS w tag = Some ''DateTime'') exif_data of
              None \<Rightarrow> Inr None
            | Some (tag, v) \<Rightarrow>
                (case strptime v of Inl e \<Rightarrow> Inl e | Inr d \<Rightarrow> Inr (Some (strftime d))))
         \<and> exif_loop (TAGS w) exif_data =
             exif_loop (TAGS w) (filter (\<lambda>(tag, v). TAGS w tag = Some ''DateTime'') exif_data)
         \<and> ((\<forall>(tag, v) \<in> set exif_data. TAGS w tag \<noteq> Some ''DateTime'') \<longrightarrow>
              (\<exists>s. get_exif_date w p = Inr s
                   \<and> first_success [from_mtime w p, from_clock w] = Some s))"
proof (intro conjI impI)
  show "exif_try w p =
           (case find (\<lambda>(tag, v). TAGS w tag = Some ''DateTime'') exif_data of
              None \<Rightarrow> Inr None
            | Some (tag, v) \<Rightarrow>
                (case strptime v of Inl e \<Rightarrow> Inl e | Inr d \<Rightarrow> Inr (Some (strftime d))))"
    using assms by (cases exif_data) (simp_all add: exif_try_def exif_loop_find)
  show "exif_loop (TAGS w) exif_data =
        exif_loop (TAGS w) (filter (\<lambda>(tag, v). TAGS w tag = Some ''DateTime'') exif_data)"
    by (induction exif_data) (auto simp: TAGS_get_def split: option.splits)
next
  assume "\<forall>(tag, v) \<in> set exif_data. TAGS w tag \<noteq> Some ''DateTime''"
  then have "find (\<lambda>(tag, v). TAGS w tag = Some ''DateTime'') exif_data = None"
    by (auto simp: find_None_iff)
  with assms have "exif_try w p = Inr None"
    by (cases exif_data) (simp_all add: exif_try_def exif_loop_find)
  then have "get_exif_date w p = mtime_or_now w p" by (simp add: get_exif_date_def)
  also have "mtime_or_now w p =
      Inr (case from_mtime w p of Some s \<Rightarrow> s | None \<Rightarrow> strftime (now w))"
    unfolding mtime_try_from_mtime [symmetric]
    by (simp add: mtime_or_now_def split: sum.splits)
  finally show "\<exists>s. get_exif_date w p = Inr s
                 \<and> first_success [from_mtime w p, from_clock w] = Some s"
    by (simp add: from_clock_def split: option.splits)
qed

theorem only_the_DateTime_tag_is_read_witness:
  "Image_open example ''photos/c.jpeg'' =
     Inr (photo (Some [(36867, Str ''2021:03:04 05:06:07'')]))
   \<and> TAGS example 36867 = Some ''DateTimeOriginal''
   \<and> strptime (Str ''2021:03:04 05:06:07'') =
       Inr \<lparr>year = 2021, month = 3, day = 4, hour = 5, minute = 6, second = 7\<rparr>
   \<and> exif_try example ''photos/c.jpeg'' = Inr None
   \<and> get_exif_date example ''photos/c.jpeg'' = Inr ''2020-01-02''
   \<and> from_mtime example ''photos/c.jpeg'' = Some ''2020-01-02''"
proof -
  have i: "Image_open example ''photos/c.jpeg'' =
     Inr (photo (Some [(36867, Str ''2021:03:04 05:06:07'')]))"
    by (simp add: example_def)
  have g: "getexif (photo (Some [(36867, Str ''2021:03:04 05:06:07'')])) =
     Inr (Some [(36867, Str ''2021:03:04 05:06:07'')])"
    by (simp add: photo_def)
  have t: "TAGS example 36867 = Some ''DateTimeOriginal''"
    by (simp add: example_def PIL_TAGS_def)
  have s: "strptime (Str ''2021:03:04 05:06:07'') =
     Inr \<lparr>year = 2021, month = 3, day = 4, hour = 5, minute = 6, second = 7\<rparr>"
    by (simp add: parse_defs)
  from only_the_DateTime_tag_is_read [OF i g]
  have "exif_try example ''photos/c.jpeg'' = Inr None"
    by (simp add: t)
  with i t s show ?thesis by (simp add: example_results example_mtimes)
qed

section \<open>Properties of file selection\<close>

text \<open>
  C10. File selection ignores the case of the extension: of the names a directory listing
  returns, exactly those whose lower-cased form ends with \<^verbatim>\<open>.jpg\<close>, \<^verbatim>\<open>.jpeg\<close>, \<^verbatim>\<open>.png\<close>,
  \<^verbatim>\<open>.tiff\<close> or \<^verbatim>\<open>.bmp\<close> are selected, in the listing's order, so \<^verbatim>\<open>PHOTO.JPG\<close> is selected
  whenever it is listed.
\<close>

theorem file_selection_ignores_case:
  assumes "listdir w directory = Inr names"
  shows "get_image_files w directory = Inr (map (path_join directory) (filter selected names))
         \<and> selected ''PHOTO.JPG''
         \<and> (''PHOTO.JPG'' \<in> set names \<longrightarrow>
              (\<exists>image_files. get_image_files w directory = Inr image_files
                 \<and> path_join directory ''PHOTO.JPG'' \<in> set image_files))"
proof -
  have eq: "get_image_files w directory =
      Inr (map (path_join directory) (filter selected names))"
    using assms by (simp add: get_image_files_def get_image_files_loop_eq)
  have sel: "selected ''PHOTO.JPG''"
    by (simp add: selected_def lower_def lower_char_def suffix_def)
  from eq sel show ?thesis by simp
qed

theorem file_selection_ignores_case_witness:
  "listdir example ''photos'' = Inr [''a.jpg'', ''notes.txt'', ''bad.bmp'', ''B.PNG'', ''c.jpeg'']
   \<and> get_image_files example ''photos'' =
       Inr [''photos/a.jpg'', ''photos/bad.bmp'', ''photos/B.PNG'', ''photos/c.jpeg'']
   \<and> selected ''B.PNG'' \<and> \<not> selected ''notes.txt''"
proof -
  have l: "listdir example ''photos'' =
    Inr [''a.jpg'', ''notes.txt'', ''bad.bmp'', ''B.PNG'', ''c.jpeg'']"
    by (simp add: example_def)
  have s: "selected ''a.jpg''" "\<not> selected ''notes.txt''" "selected ''bad.bmp''"
    "selected ''B.PNG''" "selected ''c.jpeg''"
    by (simp_all add: selected_def lower_def lower_char_def suffix_to_prefix)
  from file_selection_ignores_case [OF l] l s show ?thesis
    by (simp add: path_join_def startswith_def endswith_def)
qed

section \<open>The loop as a sequence of independent files\<close>


































section \<open>Failures of one file\<close>




section \<open>Output files\<close>



end
